theory Spec2Isabelle
  imports Complex_Main
begin

section \<open>Data model (types.ts, constants.ts)\<close>

text \<open>
  JavaScript numbers are modelled as rationals: every timestamp the program reads is an
  integer number of milliseconds (\<open>Date.now()\<close>), and sums and differences of such
  values are exact in doubles. The one division of the timer engine
  (\<open>interval / flowDivisor\<close>) is kept exact instead of being rounded to a double. The one
  product of doubles (\<open>countdownMinutes * 60 * 1000\<close>) is not computed here at all: the
  value the program computes for it is an argument of the model.
  \<open>number | null\<close> is \<open>rat option\<close>.
\<close>

datatype TimerMode = FLOW | COUNTDOWN

datatype TimerStatus = IDLE | RUNNING | PAUSED | BREAK

record CompletedTaskRecord =
  title :: string
  taskNote :: "string option"
  completedAt :: rat

record TimerState =
  mode :: TimerMode
  status :: TimerStatus
  startTime :: "rat option"
  sessionStartTime :: "rat option"
  accumulatedTime :: rat
  targetTime :: "rat option"
  breakRemaining :: "rat option"
  intervals :: "rat list"
  completedTasks :: "CompletedTaskRecord list"

text \<open>The argument of \<open>setPendingSession\<close> (the candidate session handed to the modal).\<close>

record PendingSession =
  ps_catId :: string
  ps_start :: rat
  ps_end :: rat
  ps_duration :: rat
  ps_totalElapsed :: rat
  ps_sessionStartTime :: rat
  ps_mode :: TimerMode
  ps_segmentCount :: nat

text \<open>
  What a handler does besides returning the next TimerState of its category: the candidate
  session it passes to \<open>setPendingSession\<close> (if it calls it) and whether it calls
  \<open>playNotification\<close>.
\<close>

record outcome =
  nextState :: TimerState
  pending :: "PendingSession option"
  notified :: bool

text \<open>\<open>createDefaultCategoryData().timerState\<close>\<close>

definition defaultTimerState :: TimerState where
  "defaultTimerState =
     \<lparr> mode = FLOW, status = IDLE, startTime = None, sessionStartTime = None,
       accumulatedTime = 0, targetTime = None, breakRemaining = None,
       intervals = [], completedTasks = [] \<rparr>"

text \<open>
  JavaScript truthiness of a \<open>number | null\<close>: \<open>null\<close> and \<open>0\<close> are falsy.
  \<open>orElse a b\<close> is \<open>a || b\<close>.
\<close>

definition truthy :: "rat option \<Rightarrow> bool" where
  "truthy a = (case a of None \<Rightarrow> False | Some v \<Rightarrow> v \<noteq> 0)"

definition orElse :: "rat option \<Rightarrow> rat \<Rightarrow> rat" where
  "orElse a b = (case a of None \<Rightarrow> b | Some v \<Rightarrow> if v = 0 then b else v)"

section \<open>Session assembler (App.tsx: handleEndSession, handleEndSessionForCategory)\<close>

text \<open>\<open>status === RUNNING ? now - (startTime || now) : 0\<close>\<close>

definition workInCurrentInterval :: "TimerState \<Rightarrow> rat \<Rightarrow> rat" where
  "workInCurrentInterval timerState now =
     (if status timerState = RUNNING then now - orElse (startTime timerState) now else 0)"

text \<open>\<open>intervals.reduce((a, b) => a + b, 0) + workInCurrentInterval + accumulatedTime\<close>\<close>

definition totalFocused :: "TimerState \<Rightarrow> rat \<Rightarrow> rat" where
  "totalFocused timerState now =
     foldl (+) 0 (intervals timerState) + workInCurrentInterval timerState now
       + accumulatedTime timerState"

definition segmentCount :: "TimerState \<Rightarrow> rat \<Rightarrow> nat" where
  "segmentCount timerState now =
     length (intervals timerState)
       + (if workInCurrentInterval timerState now + accumulatedTime timerState > 0 then 1 else 0)"

text \<open>\<open>sessionStartTime || startTime || now\<close>\<close>

definition finalSessionStartTime :: "TimerState \<Rightarrow> rat \<Rightarrow> rat" where
  "finalSessionStartTime timerState now =
     orElse (sessionStartTime timerState) (orElse (startTime timerState) now)"

definition candidate :: "string \<Rightarrow> TimerState \<Rightarrow> rat \<Rightarrow> PendingSession" where
  "candidate catId timerState now =
     \<lparr> ps_catId = catId,
       ps_start = finalSessionStartTime timerState now,
       ps_end = now,
       ps_duration = totalFocused timerState now,
       ps_totalElapsed = now - finalSessionStartTime timerState now,
       ps_sessionStartTime = finalSessionStartTime timerState now,
       ps_mode = mode timerState,
       ps_segmentCount = max 1 (segmentCount timerState now) \<rparr>"

text \<open>The object literal both end-session handlers store: \<open>{...timerState, status: IDLE, ...}\<close>.\<close>

definition cleared :: "TimerState \<Rightarrow> TimerState" where
  "cleared timerState =
     timerState\<lparr> status := IDLE, startTime := None, sessionStartTime := None,
       accumulatedTime := 0, targetTime := None, breakRemaining := None,
       intervals := [], completedTasks := [] \<rparr>"

text \<open>
  \<open>handleEndSession\<close> (the End Session button, on the selected category): the snapshot
  \<open>timerState\<close> is read once; the threshold test and the stored state both use it.
\<close>

definition handleEndSession :: "string \<Rightarrow> TimerState \<Rightarrow> rat \<Rightarrow> outcome" where
  "handleEndSession selectedId timerState now =
     \<lparr> nextState = cleared timerState,
       pending = (if totalFocused timerState now > 1000
                  then Some (candidate selectedId timerState now) else None),
       notified = False \<rparr>"

text \<open>\<open>handleEndSessionForCategory\<close> (called from the tick): the same computation on \<open>prev\<close>.\<close>

definition handleEndSessionForCategory :: "string \<Rightarrow> TimerState \<Rightarrow> rat \<Rightarrow> outcome" where
  "handleEndSessionForCategory catId timerState now =
     \<lparr> nextState = cleared timerState,
       pending = (if totalFocused timerState now > 1000
                  then Some (candidate catId timerState now) else None),
       notified = False \<rparr>"

section \<open>Timer engine (App.tsx: tick, toggleTimer, resetTimer, skipBreak, extendBreak)\<close>

text \<open>\<open>handleCompleteForCategory\<close>: \<open>playNotification()\<close>, then the end-session path.\<close>

definition handleCompleteForCategory :: "string \<Rightarrow> TimerState \<Rightarrow> rat \<Rightarrow> outcome" where
  "handleCompleteForCategory catId timerState now =
     (handleEndSessionForCategory catId timerState now)\<lparr> notified := True \<rparr>"

text \<open>\<open>handleBreakEndForCategory\<close>: \<open>playNotification()\<close> and three fields overwritten.\<close>

definition handleBreakEndForCategory :: "TimerState \<Rightarrow> outcome" where
  "handleBreakEndForCategory timerState =
     \<lparr> nextState = timerState\<lparr> status := IDLE, startTime := None, breakRemaining := None \<rparr>,
       pending = None,
       notified = True \<rparr>"

text \<open>
  The body of the \<open>forEach\<close> in \<open>tick\<close>, for one category. A branch that calls no handler
  leaves the state as it is and has no effect.
\<close>

definition tick :: "string \<Rightarrow> TimerState \<Rightarrow> rat \<Rightarrow> outcome" where
  "tick catId timerState now =
     (if status timerState = RUNNING then
        (if mode timerState = COUNTDOWN \<and> truthy (targetTime timerState) then
           (if accumulatedTime timerState + (now - orElse (startTime timerState) now)
                 \<ge> the (targetTime timerState)
            then handleCompleteForCategory catId timerState now
            else \<lparr> nextState = timerState, pending = None, notified = False \<rparr>)
         else \<lparr> nextState = timerState, pending = None, notified = False \<rparr>)
      else if status timerState = BREAK \<and> breakRemaining timerState \<noteq> None then
        (if the (breakRemaining timerState) - (now - orElse (startTime timerState) now) \<le> 0
         then handleBreakEndForCategory timerState
         else \<lparr> nextState = timerState, pending = None, notified = False \<rparr>)
      else \<lparr> nextState = timerState, pending = None, notified = False \<rparr>)"

text \<open>
  \<open>toggleTimer\<close>, with the three values it reads besides the state: \<open>Date.now()\<close>,
  \<open>settings.flowDivisor\<close>, and \<open>countdownMs\<close>, the double the program computes for
  \<open>countdownMinutes * 60 * 1000\<close> from the minutes input (1500000 for 25, 60000 for 1,
  0 for an empty input, and 491999.99999999994 for 8.2, where the exact product would be
  492000). The quotient \<open>interval / flowDivisor\<close> is the exact one, which is
  JavaScript's up to rounding for a divisor other than 0; the settings form stores
  \<open>parseInt(value) || 5\<close>, never 0.
\<close>

definition toggleTimer :: "rat \<Rightarrow> rat \<Rightarrow> TimerState \<Rightarrow> rat \<Rightarrow> TimerState" where
  "toggleTimer flowDivisor countdownMs timerState now =
     (if status timerState = RUNNING then
        (let interval = now - orElse (startTime timerState) now in
         if mode timerState = FLOW then
           timerState\<lparr> status := BREAK, startTime := Some now, accumulatedTime := 0,
             intervals := intervals timerState @ [interval],
             breakRemaining := Some (interval / flowDivisor) \<rparr>
         else
           timerState\<lparr> status := PAUSED, startTime := None,
             accumulatedTime := accumulatedTime timerState + interval \<rparr>)
      else if status timerState = BREAK then
        timerState\<lparr> status := RUNNING, startTime := Some now, accumulatedTime := 0,
          breakRemaining := None \<rparr>
      else
        timerState\<lparr> status := RUNNING, startTime := Some now,
          sessionStartTime := Some (orElse (sessionStartTime timerState) now),
          accumulatedTime := (if mode timerState = FLOW then 0 else accumulatedTime timerState),
          targetTime := (if mode timerState = COUNTDOWN
                         then Some (orElse (targetTime timerState) countdownMs)
                         else None) \<rparr>)"

definition resetTimer :: "TimerState \<Rightarrow> TimerState" where
  "resetTimer timerState =
     timerState\<lparr> status := IDLE, startTime := None, sessionStartTime := None,
       accumulatedTime := 0, breakRemaining := None, targetTime := None,
       intervals := [], completedTasks := [] \<rparr>"

definition skipBreak :: "TimerState \<Rightarrow> outcome" where
  "skipBreak timerState =
     \<lparr> nextState = timerState\<lparr> status := IDLE, startTime := None, breakRemaining := None \<rparr>,
       pending = None,
       notified = False \<rparr>"

text \<open>\<open>breakRemaining: (breakRemaining || 0) + ms\<close>\<close>

definition extendBreak :: "TimerState \<Rightarrow> rat \<Rightarrow> TimerState" where
  "extendBreak timerState ms =
     timerState\<lparr> breakRemaining := Some (orElse (breakRemaining timerState) 0 + ms) \<rparr>"

text \<open>The two mode buttons: \<open>{...timerState, mode: m}\<close>.\<close>

definition setMode :: "TimerState \<Rightarrow> TimerMode \<Rightarrow> TimerState" where
  "setMode timerState m = timerState\<lparr> mode := m \<rparr>"

text \<open>The part of \<open>toggleTask\<close> that touches the TimerState, for a task being checked off.\<close>

definition recordCompletedTask :: "TimerState \<Rightarrow> CompletedTaskRecord \<Rightarrow> TimerState" where
  "recordCompletedTask timerState r =
     (if status timerState \<noteq> IDLE
      then timerState\<lparr> completedTasks := completedTasks timerState @ [r] \<rparr>
      else timerState)"

section \<open>The operations as events, and the states they reach\<close>

text \<open>\<open>Number.isInteger\<close>\<close>

definition isInteger :: "rat \<Rightarrow> bool" where
  "isInteger x = (rat_of_int \<lfloor>x\<rfloor> = x)"

text \<open>
  One event per operation on a category's TimerState, with the values the handler reads
  from outside the state: \<open>Toggle now flowDivisor countdownMs\<close>, \<open>EndSession now\<close>,
  \<open>Tick now\<close>, \<open>ExtendBreak ms\<close>, \<open>SwitchMode m\<close> (the two mode buttons) and
  \<open>CompleteTask r\<close> (a task checked off).
\<close>

datatype event =
    Toggle rat rat rat
  | EndSession rat
  | Reset
  | Tick rat
  | SkipBreak
  | ExtendBreak rat
  | SwitchMode TimerMode
  | CompleteTask CompletedTaskRecord

fun dispatch :: "string \<Rightarrow> TimerState \<Rightarrow> event \<Rightarrow> outcome" where
  "dispatch catId ts (Toggle now flowDivisor countdownMs) =
     \<lparr> nextState = toggleTimer flowDivisor countdownMs ts now,
       pending = None, notified = False \<rparr>"
| "dispatch catId ts (EndSession now) = handleEndSession catId ts now"
| "dispatch catId ts Reset = \<lparr> nextState = resetTimer ts, pending = None, notified = False \<rparr>"
| "dispatch catId ts (Tick now) = tick catId ts now"
| "dispatch catId ts SkipBreak = skipBreak ts"
| "dispatch catId ts (ExtendBreak ms) =
     \<lparr> nextState = extendBreak ts ms, pending = None, notified = False \<rparr>"
| "dispatch catId ts (SwitchMode m) =
     \<lparr> nextState = setMode ts m, pending = None, notified = False \<rparr>"
| "dispatch catId ts (CompleteTask r) =
     \<lparr> nextState = recordCompletedTask ts r, pending = None, notified = False \<rparr>"

text \<open>
  The values an event can carry in the running program: \<open>Date.now()\<close> is a whole number
  of milliseconds, and \<open>settings.flowDivisor\<close> is 5 or \<open>parseInt(value) || 5\<close>, a whole
  number other than 0. The two minute inputs are \<open>Number(value)\<close>, any number, and so
  are the milliseconds computed from them.
\<close>

fun wellFormed :: "event \<Rightarrow> bool" where
  "wellFormed (Toggle now flowDivisor countdownMs) =
     (isInteger now \<and> isInteger flowDivisor \<and> flowDivisor \<noteq> 0)"
| "wellFormed (EndSession now) = isInteger now"
| "wellFormed (Tick now) = isInteger now"
| "wellFormed e = True"

text \<open>
  The states reachable from the default state by well-formed events that a side condition
  \<open>allowed\<close> (on the state the event is applied to) lets through.
\<close>

inductive reachable :: "(TimerState \<Rightarrow> event \<Rightarrow> bool) \<Rightarrow> TimerState \<Rightarrow> bool"
  for allowed :: "TimerState \<Rightarrow> event \<Rightarrow> bool" where
  initial: "reachable allowed defaultTimerState"
| after: "reachable allowed ts \<Longrightarrow> wellFormed e \<Longrightarrow> allowed ts e
            \<Longrightarrow> reachable allowed (nextState (dispatch catId ts e))"

definition anyEvent :: "TimerState \<Rightarrow> event \<Rightarrow> bool" where
  "anyEvent ts e = True"

text \<open>The Countdown button pressed only while no finished interval is stored.\<close>

fun countdownSwitchWhenEmpty :: "TimerState \<Rightarrow> event \<Rightarrow> bool" where
  "countdownSwitchWhenEmpty ts (SwitchMode COUNTDOWN) = (intervals ts = [])"
| "countdownSwitchWhenEmpty ts e = True"

text \<open>The countdown input holding a number for which the program's
  \<open>countdownMinutes * 60 * 1000\<close> is whole (as it is for whole minutes).\<close>

fun wholeTarget :: "TimerState \<Rightarrow> event \<Rightarrow> bool" where
  "wholeTarget ts (Toggle now flowDivisor countdownMs) = isInteger countdownMs"
| "wholeTarget ts e = True"

text \<open>The invariant of the data model: \<open>startTime\<close> is non-null exactly in RUNNING and BREAK.\<close>

definition startTimeInv :: "TimerState \<Rightarrow> bool" where
  "startTimeInv ts = ((startTime ts \<noteq> None) = (status ts = RUNNING \<or> status ts = BREAK))"

section \<open>Midnight splitter (utils.ts: splitSessionByMidnight)\<close>


text \<open>
  The host's local time zone, as far as the splitter sees it: \<open>localDay z t\<close> is the
  number of the local calendar day the instant \<open>t\<close> falls on, and \<open>dayStart z k\<close> the
  instant of local 00:00:00.000 of day \<open>k\<close>. In a zone with daylight saving the days are
  not all 86400000 ms long: one day a year lasts 23 hours and one 25.
\<close>

record zone =
  localDay :: "int \<Rightarrow> int"
  dayStart :: "int \<Rightarrow> int"

text \<open>A zone is sound when its days follow one another and each instant lies in its day.\<close>

definition validZone :: "zone \<Rightarrow> bool" where
  "validZone z =
     ((\<forall>k. dayStart z k < dayStart z (k + 1))
      \<and> (\<forall>t. dayStart z (localDay z t) \<le> t \<and> t < dayStart z (localDay z t + 1)))"


definition msPerDay :: int where
  "msPerDay = 86400000"


text \<open>
  A zone whose offset is \<open>before\<close> up to the instant \<open>change\<close> and \<open>after\<close> from then
  on; the day of the change starts under the old offset, the next one under the new.
\<close>

definition changingZone :: "int \<Rightarrow> int \<Rightarrow> int \<Rightarrow> zone" where
  "changingZone before change after =
     \<lparr> localDay = (\<lambda>t. (t + (if t < change then before else after)) div msPerDay),
       dayStart = (\<lambda>k. if k \<le> (change + before) div msPerDay
                         then k * msPerDay - before else k * msPerDay - after) \<rparr>"


definition newYorkFall2024 :: zone where
  "newYorkFall2024 = changingZone (- 14400000) 1730613600000 (- 18000000)"













text \<open>What the integer-timestamp events keep whole: the banked time, the finished
  intervals and the start of the running segment.\<close>

definition wholeInv :: "TimerState \<Rightarrow> bool" where
  "wholeInv ts =
     (isInteger (accumulatedTime ts) \<and> (\<forall>x\<in>set (intervals ts). isInteger x)
        \<and> (\<forall>s. startTime ts = Some s \<longrightarrow> isInteger s))"






section \<open>Auxiliary facts\<close>

lemma foldl_plus_sum_list: "foldl (+) a xs = a + sum_list (xs :: rat list)"
  by (induction xs arbitrary: a) (simp_all add: add.assoc)

lemma isInteger_Ints: "isInteger x = (x \<in> \<int>)"
  unfolding isInteger_def
  by (metis Ints_of_int floor_of_int Ints_cases)

lemma isInteger_of_int [simp]: "isInteger (rat_of_int i)"
  by (simp add: isInteger_def)

lemma isInteger_arith:
  "isInteger 0"
  "isInteger a \<Longrightarrow> isInteger b \<Longrightarrow> isInteger (a + b)"
  "isInteger a \<Longrightarrow> isInteger b \<Longrightarrow> isInteger (a - b)"
  by (simp_all add: isInteger_Ints)

lemma isInteger_orElse:
  "(\<forall>v. a = Some v \<longrightarrow> isInteger v) \<Longrightarrow> isInteger b \<Longrightarrow> isInteger (orElse a b)"
  by (cases a) (simp_all add: orElse_def)

lemma isInteger_quotient:
  "d \<noteq> 0 \<Longrightarrow> isInteger (rat_of_int i / rat_of_int d) = (d dvd i)"
proof
  assume d: "d \<noteq> 0" and "isInteger (rat_of_int i / rat_of_int d)"
  then obtain k where "rat_of_int i / rat_of_int d = rat_of_int k"
    by (auto simp: isInteger_Ints elim: Ints_cases)
  with d have "rat_of_int i = rat_of_int (k * d)"
    by (simp add: field_simps)
  then have "i = k * d" by (simp only: of_int_eq_iff)
  then show "d dvd i" by simp
next
  assume d: "d \<noteq> 0" and "d dvd i"
  then obtain k where "i = d * k" by (auto simp: dvd_def)
  with d show "isInteger (rat_of_int i / rat_of_int d)" by simp
qed

text \<open>The three things a tick can do to a category's state.\<close>

lemma tick_cases:
  "nextState (tick c ts now) = ts
   \<or> nextState (tick c ts now) = cleared ts
   \<or> (status ts = BREAK
        \<and> nextState (tick c ts now)
            = ts\<lparr> status := IDLE, startTime := None, breakRemaining := None \<rparr>)"
  by (simp add: tick_def handleCompleteForCategory_def handleEndSessionForCategory_def
      handleBreakEndForCategory_def)

lemma dispatch_startTimeInv: "startTimeInv ts \<Longrightarrow> startTimeInv (nextState (dispatch c ts e))"
proof (cases e)
  case (Tick now)
  assume "startTimeInv ts"
  with tick_cases [of c ts now] Tick show ?thesis
    by (auto simp: startTimeInv_def cleared_def)
qed (auto simp: startTimeInv_def toggleTimer_def Let_def handleEndSession_def cleared_def
       resetTimer_def skipBreak_def extendBreak_def setMode_def recordCompletedTask_def)

lemma reachable_startTimeInv: "reachable allowed ts \<Longrightarrow> startTimeInv ts"
proof (induction rule: reachable.induct)
  case initial
  show ?case by (simp add: startTimeInv_def defaultTimerState_def)
next
  case (after ts e catId)
  then show ?case by (simp add: dispatch_startTimeInv)
qed

lemma dispatch_countdown_intervals:
  assumes "mode ts = COUNTDOWN \<longrightarrow> intervals ts = []" "countdownSwitchWhenEmpty ts e"
  shows "mode (nextState (dispatch c ts e)) = COUNTDOWN
           \<longrightarrow> intervals (nextState (dispatch c ts e)) = []"
proof (cases e)
  case (Tick now)
  with tick_cases [of c ts now] assms show ?thesis
    by (auto simp: cleared_def)
next
  case (SwitchMode m)
  with assms show ?thesis by (cases m) (auto simp: setMode_def)
qed (use assms in \<open>auto simp: toggleTimer_def Let_def handleEndSession_def cleared_def
       resetTimer_def skipBreak_def extendBreak_def recordCompletedTask_def\<close>)

lemma dispatch_wholeInv:
  assumes "wholeInv ts" "wellFormed e"
  shows "wholeInv (nextState (dispatch c ts e))"
proof (cases e)
  case (Toggle now d cm)
  with assms have now: "isInteger now" by simp
  from assms have "isInteger (orElse (startTime ts) now)"
    using now by (intro isInteger_orElse) (simp_all add: wholeInv_def)
  with now have "isInteger (now - orElse (startTime ts) now)"
    by (simp add: isInteger_arith)
  with assms now Toggle show ?thesis
    by (auto simp: wholeInv_def toggleTimer_def Let_def isInteger_arith)
next
  case (Tick now)
  with tick_cases [of c ts now] assms show ?thesis
    by (auto simp: cleared_def wholeInv_def isInteger_arith)
qed (use assms in \<open>auto simp: wholeInv_def handleEndSession_def cleared_def isInteger_arith
       resetTimer_def skipBreak_def extendBreak_def setMode_def recordCompletedTask_def\<close>)

lemma reachable_wholeInv: "reachable allowed ts \<Longrightarrow> wholeInv ts"
proof (induction rule: reachable.induct)
  case initial
  show ?case by (simp add: wholeInv_def defaultTimerState_def isInteger_arith)
next
  case (after ts e catId)
  then show ?case by (simp add: dispatch_wholeInv)
qed

lemma dispatch_wholeTarget:
  assumes "\<forall>t. targetTime ts = Some t \<longrightarrow> isInteger t" "wholeTarget ts e"
  shows "\<forall>t. targetTime (nextState (dispatch c ts e)) = Some t \<longrightarrow> isInteger t"
proof (cases e)
  case (Toggle now d cm)
  with assms have "isInteger (orElse (targetTime ts) cm)"
    by (intro isInteger_orElse) simp_all
  with assms Toggle show ?thesis
    by (auto simp: toggleTimer_def Let_def)
next
  case (Tick now)
  with tick_cases [of c ts now] assms show ?thesis
    by (auto simp: cleared_def)
qed (use assms in \<open>auto simp: handleEndSession_def cleared_def
       resetTimer_def skipBreak_def extendBreak_def setMode_def recordCompletedTask_def\<close>)

lemma reachable_wholeTarget:
  "reachable wholeTarget ts \<Longrightarrow> \<forall>t. targetTime ts = Some t \<longrightarrow> isInteger t"
proof (induction rule: reachable.induct)
  case initial
  show ?case by (simp add: defaultTimerState_def)
next
  case (after ts e catId)
  then show ?case by (intro dispatch_wholeTarget) simp_all
qed

text \<open>A session started in the default state, and one started after the Countdown button.\<close>

lemma reachable_started_flow:
  "wellFormed (Toggle t0 d cm) \<Longrightarrow> allowed defaultTimerState (Toggle t0 d cm)
     \<Longrightarrow> reachable allowed (toggleTimer d cm defaultTimerState t0)"
  using reachable.after [OF reachable.initial, of "Toggle t0 d cm" allowed catId]
  by simp

lemma reachable_toggled:
  "reachable allowed ts \<Longrightarrow> wellFormed (Toggle t d cm) \<Longrightarrow> allowed ts (Toggle t d cm)
     \<Longrightarrow> reachable allowed (toggleTimer d cm ts t)"
  using reachable.after [of allowed ts "Toggle t d cm" catId]
  by simp

lemma reachable_switched:
  "reachable allowed ts \<Longrightarrow> allowed ts (SwitchMode m) \<Longrightarrow> reachable allowed (setMode ts m)"
  using reachable.after [of allowed ts "SwitchMode m" catId]
  by simp














lemma div_day_bounds:
  "q = x div msPerDay \<Longrightarrow> q * 86400000 \<le> x \<and> x < (q + 1) * 86400000"
proof -
  assume q: "q = x div msPerDay"
  define r where "r = x mod 86400000"
  have "86400000 * q + r = x"
    unfolding q r_def msPerDay_def by (rule mult_div_mod_eq)
  moreover have "0 \<le> r" "r < 86400000"
    by (simp_all add: r_def)
  ultimately show ?thesis by (auto simp: algebra_simps)
qed



lemma validZone_changingZone:
  assumes same: "(change + after) div msPerDay = (change + before) div msPerDay"
  shows "validZone (changingZone before change after)"
proof -
  define K where "K = (change + before) div msPerDay"
  note divb = div_day_bounds
  have Kb: "K * 86400000 \<le> change + before" "change + before < (K + 1) * 86400000"
    using divb [of K "change + before"] by (simp_all add: K_def)
  have Ka: "K * 86400000 \<le> change + after" "change + after < (K + 1) * 86400000"
    using divb [of K "change + after"] same by (simp_all add: K_def)
  let ?z = "changingZone before change after"
  have ds: "dayStart ?z k = (if k \<le> K then k * 86400000 - before else k * 86400000 - after)" for k
    by (simp add: changingZone_def K_def msPerDay_def)
  have ld: "localDay ?z t = (t + (if t < change then before else after)) div msPerDay" for t
    by (simp add: changingZone_def)
  have mono: "dayStart ?z k < dayStart ?z (k + 1)" for k
    using Kb Ka by (simp add: ds algebra_simps)
  have in_day: "dayStart ?z (localDay ?z t) \<le> t \<and> t < dayStart ?z (localDay ?z t + 1)" for t
  proof (cases "t < change")
    case True
    define j where "j = (t + before) div msPerDay"
    have jb: "j * 86400000 \<le> t + before" "t + before < (j + 1) * 86400000"
      using divb [of j "t + before"] by (simp_all add: j_def)
    have "j \<le> K"
    proof (rule ccontr)
      assume "\<not> j \<le> K"
      then have "(K + 1) * 86400000 \<le> j * 86400000" by simp
      with jb Kb True show False by simp
    qed
    moreover have "localDay ?z t = j" using True by (simp add: ld j_def)
    ultimately show ?thesis using jb Ka True by (simp add: ds algebra_simps)
  next
    case False
    define j where "j = (t + after) div msPerDay"
    have jb: "j * 86400000 \<le> t + after" "t + after < (j + 1) * 86400000"
      using divb [of j "t + after"] by (simp_all add: j_def)
    have "K \<le> j"
    proof (rule ccontr)
      assume "\<not> K \<le> j"
      then have "(j + 1) * 86400000 \<le> K * 86400000" by simp
      with jb Ka False show False by simp
    qed
    moreover have "localDay ?z t = j" using False by (simp add: ld j_def)
    ultimately show ?thesis using jb Kb False by (auto simp: ds algebra_simps)
  qed
  from mono in_day show ?thesis by (simp add: validZone_def)
qed


lemma validZone_newYorkFall2024: "validZone newYorkFall2024"
  unfolding newYorkFall2024_def
  by (rule validZone_changingZone) (simp add: msPerDay_def)

















section \<open>Session assembler: threshold and reset\<close>

text \<open>
  C2. End-Session on any TimerState at any time \<open>now\<close> hands over a candidate session
  exactly when \<open>sum(intervals) + workInCurrentInterval + accumulatedTime\<close> exceeds 1000 ms
  (below that there is no record, and no error either: the handler returns normally), and
  in both cases the stored state is IDLE with startTime, sessionStartTime, targetTime and
  breakRemaining null, accumulatedTime 0, intervals and completedTasks empty. The decision
  and the stored state are computed from the one snapshot \<open>ts\<close>.
\<close>

theorem handleEndSession_threshold_reset:
  "(pending (handleEndSession c ts now) \<noteq> None)
      = (sum_list (intervals ts) + workInCurrentInterval ts now + accumulatedTime ts > 1000)
   \<and> pending (handleEndSession c ts now)
      = (if totalFocused ts now > 1000 then Some (candidate c ts now) else None)
   \<and> totalFocused ts now
      = sum_list (intervals ts) + workInCurrentInterval ts now + accumulatedTime ts
   \<and> nextState (handleEndSession c ts now)
      = \<lparr> mode = mode ts, status = IDLE, startTime = None, sessionStartTime = None,
          accumulatedTime = 0, targetTime = None, breakRemaining = None,
          intervals = [], completedTasks = [] \<rparr>"
  by (simp add: handleEndSession_def cleared_def totalFocused_def foldl_plus_sum_list)

text \<open>Started at \<open>t0\<close> and ended 500 ms later: nothing is emitted and the state is IDLE;
  ended 1001 ms later: a candidate is emitted.\<close>

theorem handleEndSession_threshold_reset_witness:
  "pending (handleEndSession ''default-1'' (toggleTimer 5 1500000 defaultTimerState 1700000000000)
              1700000000500) = None
   \<and> status (nextState (handleEndSession ''default-1''
              (toggleTimer 5 1500000 defaultTimerState 1700000000000) 1700000000500)) = IDLE
   \<and> pending (handleEndSession ''default-1'' (toggleTimer 5 1500000 defaultTimerState 1700000000000)
              1700000001001) \<noteq> None"
  using handleEndSession_threshold_reset [of "''default-1''"
          "toggleTimer 5 1500000 defaultTimerState 1700000000000" 1700000000500]
        handleEndSession_threshold_reset [of "''default-1''"
          "toggleTimer 5 1500000 defaultTimerState 1700000000000" 1700000001001]
  by (simp add: toggleTimer_def defaultTimerState_def workInCurrentInterval_def orElse_def)

section \<open>Timer engine: transitions\<close>

text \<open>
  C3. In FLOW mode, RUNNING, with startTime set (non-null and, as the code's own test
  \<open>startTime || now\<close> reads it, not 0), the toggle at \<open>now\<close> stores status BREAK, the old
  intervals with \<open>now - startTime\<close> appended, breakRemaining = interval / flowDivisor,
  startTime = now and accumulatedTime = 0, and changes nothing else. Started at \<open>t0\<close> in
  the default state and toggled at \<open>t0 + 5000\<close> with divisor 5: intervals = [5000],
  breakRemaining = 1000, status BREAK, startTime = \<open>t0 + 5000\<close>.
\<close>

theorem toggleTimer_flow_running:
  "(mode ts = FLOW \<and> status ts = RUNNING \<and> startTime ts = Some s \<and> s \<noteq> 0
      \<and> flowDivisor \<noteq> 0 \<longrightarrow>
     toggleTimer flowDivisor cm ts now
       = ts\<lparr> status := BREAK, intervals := intervals ts @ [now - s],
             breakRemaining := Some ((now - s) / flowDivisor), startTime := Some now,
             accumulatedTime := 0 \<rparr>)
   \<and> (t0 \<noteq> 0 \<longrightarrow>
        toggleTimer 5 cm (toggleTimer 5 cm defaultTimerState t0) (t0 + 5000)
          = defaultTimerState\<lparr> status := BREAK, intervals := [5000],
               breakRemaining := Some 1000, startTime := Some (t0 + 5000),
               sessionStartTime := Some t0 \<rparr>)"
  by (simp add: toggleTimer_def orElse_def defaultTimerState_def Let_def)

theorem toggleTimer_flow_running_witness:
  "toggleTimer 4 1500000
     \<lparr> mode = FLOW, status = RUNNING, startTime = Some 1700000000000,
       sessionStartTime = Some 1699999990000, accumulatedTime = 0, targetTime = None,
       breakRemaining = None, intervals = [6000], completedTasks = [] \<rparr> 1700000008000
   = \<lparr> mode = FLOW, status = BREAK, startTime = Some 1700000008000,
       sessionStartTime = Some 1699999990000, accumulatedTime = 0, targetTime = None,
       breakRemaining = Some 2000, intervals = [6000, 8000], completedTasks = [] \<rparr>
   \<and> toggleTimer 5 1500000 (toggleTimer 5 1500000 defaultTimerState 1700000000000) (1700000000000 + 5000)
   = \<lparr> mode = FLOW, status = BREAK, startTime = Some 1700000005000,
       sessionStartTime = Some 1700000000000, accumulatedTime = 0, targetTime = None,
       breakRemaining = Some 1000, intervals = [5000], completedTasks = [] \<rparr>"
  using toggleTimer_flow_running [of
     "\<lparr> mode = FLOW, status = RUNNING, startTime = Some 1700000000000,
       sessionStartTime = Some 1699999990000, accumulatedTime = 0, targetTime = None,
       breakRemaining = None, intervals = [6000], completedTasks = [] \<rparr>"
     1700000000000 4 1500000 1700000008000 1700000000000]
  by (simp add: defaultTimerState_def)

text \<open>
  C4, as amended. In COUNTDOWN mode, RUNNING, with a targetTime other than null and other
  than 0 (what the tick's own test \<open>timerState.targetTime\<close> lets through), a tick at
  \<open>now\<close> with accumulatedTime + (now - (startTime || now)) \<ge> targetTime takes the
  End-Session path at \<open>now\<close>: it stores the state and hands over the candidate that
  End-Session at \<open>now\<close> would, and plays the notification. For a set startTime the live
  elapsed time \<open>now - (startTime || now)\<close> is \<open>now - startTime\<close>. With a target of
  60000 ms started at \<open>t0\<close>, the tick at \<open>t0 + 60000 + late\<close> emits a session of
  focused duration \<open>60000 + late\<close> and stores the cleared state.
\<close>

theorem tick_countdown_complete:
  "(mode ts = COUNTDOWN \<and> status ts = RUNNING \<and> targetTime ts = Some target \<and> target \<noteq> 0
      \<and> accumulatedTime ts + (now - orElse (startTime ts) now) \<ge> target \<longrightarrow>
      nextState (tick c ts now) = nextState (handleEndSession c ts now)
      \<and> pending (tick c ts now) = pending (handleEndSession c ts now)
      \<and> tick c ts now = (handleEndSessionForCategory c ts now)\<lparr> notified := True \<rparr>)
   \<and> (startTime ts = Some s \<and> s \<noteq> 0 \<longrightarrow> now - orElse (startTime ts) now = now - s)
   \<and> (t0 \<noteq> 0 \<and> 0 \<le> late \<longrightarrow>
        nextState (tick c (toggleTimer d 60000 (setMode defaultTimerState COUNTDOWN) t0)
                    (t0 + 60000 + late))
          = setMode defaultTimerState COUNTDOWN
        \<and> pending (tick c (toggleTimer d 60000 (setMode defaultTimerState COUNTDOWN) t0)
                    (t0 + 60000 + late))
          = Some \<lparr> ps_catId = c, ps_start = t0, ps_end = t0 + 60000 + late,
                   ps_duration = 60000 + late, ps_totalElapsed = 60000 + late,
                   ps_sessionStartTime = t0, ps_mode = COUNTDOWN, ps_segmentCount = 1 \<rparr>)"
  by (simp add: tick_def truthy_def handleCompleteForCategory_def handleEndSessionForCategory_def
        handleEndSession_def toggleTimer_def setMode_def defaultTimerState_def orElse_def
        cleared_def candidate_def totalFocused_def workInCurrentInterval_def
        finalSessionStartTime_def segmentCount_def)

theorem tick_countdown_complete_witness:
  "tick ''default-1''
     \<lparr> mode = COUNTDOWN, status = RUNNING, startTime = Some 1700000040000,
       sessionStartTime = Some 1700000000000, accumulatedTime = 30000,
       targetTime = Some 60000, breakRemaining = None, intervals = [],
       completedTasks = [] \<rparr> 1700000070000
   = \<lparr> nextState = \<lparr> mode = COUNTDOWN, status = IDLE, startTime = None,
         sessionStartTime = None, accumulatedTime = 0, targetTime = None,
         breakRemaining = None, intervals = [], completedTasks = [] \<rparr>,
       pending = Some \<lparr> ps_catId = ''default-1'', ps_start = 1700000000000,
         ps_end = 1700000070000, ps_duration = 60000, ps_totalElapsed = 70000,
         ps_sessionStartTime = 1700000000000, ps_mode = COUNTDOWN, ps_segmentCount = 1 \<rparr>,
       notified = True \<rparr>
   \<and> pending (tick ''default-1''
        (toggleTimer 5 60000 (setMode defaultTimerState COUNTDOWN) 1700000000000)
        (1700000000000 + 60000 + 100))
     = Some \<lparr> ps_catId = ''default-1'', ps_start = 1700000000000,
         ps_end = 1700000000000 + 60000 + 100, ps_duration = 60000 + 100,
         ps_totalElapsed = 60000 + 100, ps_sessionStartTime = 1700000000000,
         ps_mode = COUNTDOWN, ps_segmentCount = 1 \<rparr>"
  using tick_countdown_complete [of
     "\<lparr> mode = COUNTDOWN, status = RUNNING, startTime = Some 1700000040000,
       sessionStartTime = Some 1700000000000, accumulatedTime = 30000,
       targetTime = Some 60000, breakRemaining = None, intervals = [],
       completedTasks = [] \<rparr>" 60000 1700000070000 "''default-1''" 1700000040000
     1700000000000 100 5]
  by (simp add: orElse_def handleEndSessionForCategory_def cleared_def candidate_def
        totalFocused_def workInCurrentInterval_def finalSessionStartTime_def segmentCount_def)

text \<open>
  C4 as stated fails. With the minutes input empty the program computes a target of 0, and
  Start in COUNTDOWN mode stores targetTime = 0, which is not null. A minute later
  accumulatedTime + (now - startTime) = 60000 \<ge> 0 = targetTime, yet the tick does nothing:
  the state stays RUNNING and no session is handed over, where End-Session at that time
  stores an IDLE state and hands over a candidate.
\<close>

theorem tick_countdown_zero_target:
  "reachable anyEvent (toggleTimer 5 0 (setMode defaultTimerState COUNTDOWN) 1700000000000)
   \<and> mode (toggleTimer 5 0 (setMode defaultTimerState COUNTDOWN) 1700000000000) = COUNTDOWN
   \<and> status (toggleTimer 5 0 (setMode defaultTimerState COUNTDOWN) 1700000000000) = RUNNING
   \<and> startTime (toggleTimer 5 0 (setMode defaultTimerState COUNTDOWN) 1700000000000)
       = Some 1700000000000
   \<and> targetTime (toggleTimer 5 0 (setMode defaultTimerState COUNTDOWN) 1700000000000)
       = Some 0
   \<and> accumulatedTime (toggleTimer 5 0 (setMode defaultTimerState COUNTDOWN) 1700000000000)
         + (1700000060000 - 1700000000000) \<ge> 0
   \<and> tick ''default-1'' (toggleTimer 5 0 (setMode defaultTimerState COUNTDOWN) 1700000000000)
         1700000060000
       = \<lparr> nextState = toggleTimer 5 0 (setMode defaultTimerState COUNTDOWN) 1700000000000,
           pending = None, notified = False \<rparr>
   \<and> status (nextState (handleEndSession ''default-1''
         (toggleTimer 5 0 (setMode defaultTimerState COUNTDOWN) 1700000000000) 1700000060000))
       = IDLE
   \<and> pending (handleEndSession ''default-1''
         (toggleTimer 5 0 (setMode defaultTimerState COUNTDOWN) 1700000000000) 1700000060000)
       \<noteq> None"
proof -
  have "reachable anyEvent (toggleTimer 5 0 (setMode defaultTimerState COUNTDOWN) 1700000000000)"
    by (intro reachable_toggled reachable_switched reachable.initial)
       (simp_all add: isInteger_def anyEvent_def)
  then show ?thesis
    by (simp add: toggleTimer_def setMode_def defaultTimerState_def orElse_def tick_def
          truthy_def handleEndSession_def cleared_def totalFocused_def
          workInCurrentInterval_def)
qed

text \<open>
  C6. In BREAK with breakRemaining set, a tick at which breakRemaining minus the time
  elapsed since startTime is \<le> 0 stores status IDLE, startTime and breakRemaining null,
  and every other field (mode, sessionStartTime, accumulatedTime, targetTime, intervals,
  completedTasks) as it was; it hands over no session record (it does play the
  notification).
\<close>

theorem tick_break_expiry:
  "status ts = BREAK \<and> breakRemaining ts = Some b
      \<and> b - (now - orElse (startTime ts) now) \<le> 0 \<longrightarrow>
     tick c ts now
       = \<lparr> nextState = ts\<lparr> status := IDLE, startTime := None, breakRemaining := None \<rparr>,
           pending = None, notified = True \<rparr>
     \<and> nextState (tick c ts now)
       = \<lparr> mode = mode ts, status = IDLE, startTime = None,
           sessionStartTime = sessionStartTime ts, accumulatedTime = accumulatedTime ts,
           targetTime = targetTime ts, breakRemaining = None, intervals = intervals ts,
           completedTasks = completedTasks ts \<rparr>"
  by (simp add: tick_def handleBreakEndForCategory_def)

theorem tick_break_expiry_witness:
  "tick ''default-1''
     \<lparr> mode = FLOW, status = BREAK, startTime = Some 1700000005000,
       sessionStartTime = Some 1700000000000, accumulatedTime = 0, targetTime = None,
       breakRemaining = Some 1000, intervals = [5000], completedTasks = [] \<rparr> 1700000006000
   = \<lparr> nextState = \<lparr> mode = FLOW, status = IDLE, startTime = None,
         sessionStartTime = Some 1700000000000, accumulatedTime = 0, targetTime = None,
         breakRemaining = None, intervals = [5000], completedTasks = [] \<rparr>,
       pending = None, notified = True \<rparr>"
  using tick_break_expiry [of
     "\<lparr> mode = FLOW, status = BREAK, startTime = Some 1700000005000,
       sessionStartTime = Some 1700000000000, accumulatedTime = 0, targetTime = None,
       breakRemaining = Some 1000, intervals = [5000], completedTasks = [] \<rparr>"
     1000 1700000006000 "''default-1''"]
  by (simp add: orElse_def)

text \<open>
  C7. A tick on an IDLE TimerState, at any time, stores the state unchanged and has no
  effect; a second tick on the result does the same.
\<close>

theorem tick_idle_noop:
  "status ts = IDLE \<longrightarrow>
     tick c ts now = \<lparr> nextState = ts, pending = None, notified = False \<rparr>
     \<and> tick c (nextState (tick c ts now)) now' = tick c ts now"
  by (simp add: tick_def)

theorem tick_idle_noop_witness:
  "tick ''default-1'' defaultTimerState 1700000000000
     = \<lparr> nextState = defaultTimerState, pending = None, notified = False \<rparr>"
  using tick_idle_noop [of defaultTimerState "''default-1''" 1700000000000 1700000000100]
  by (simp add: defaultTimerState_def)

text \<open>
  C10. Skip-break on any TimerState stores status IDLE, startTime and breakRemaining
  null and every other field as it was, and hands over no session record. The intervals of
  the chain are kept, so the next Start runs with the same intervals, completed tasks and
  (when it was set) sessionStartTime: the same chain goes on.
\<close>

theorem skipBreak_frame:
  "skipBreak ts
     = \<lparr> nextState = \<lparr> mode = mode ts, status = IDLE, startTime = None,
           sessionStartTime = sessionStartTime ts, accumulatedTime = accumulatedTime ts,
           targetTime = targetTime ts, breakRemaining = None, intervals = intervals ts,
           completedTasks = completedTasks ts \<rparr>,
         pending = None, notified = False \<rparr>
   \<and> status (toggleTimer d cm (nextState (skipBreak ts)) now) = RUNNING
   \<and> intervals (toggleTimer d cm (nextState (skipBreak ts)) now) = intervals ts
   \<and> completedTasks (toggleTimer d cm (nextState (skipBreak ts)) now) = completedTasks ts
   \<and> sessionStartTime (toggleTimer d cm (nextState (skipBreak ts)) now)
        = Some (orElse (sessionStartTime ts) now)"
  by (simp add: skipBreak_def toggleTimer_def)

section \<open>Invariants of the reachable states\<close>

text \<open>
  C8. In every state reachable from the default IDLE state by the operations (toggle,
  end-session, reset, tick, skip and extend break, mode switch, task completion), startTime
  is non-null if and only if status is RUNNING or BREAK; and every operation, applied to
  any state with this property, yields a state with it.
\<close>

theorem startTime_iff_active:
  "(reachable anyEvent ts \<longrightarrow>
      ((startTime ts \<noteq> None) = (status ts = RUNNING \<or> status ts = BREAK)))
   \<and> (startTimeInv ts \<longrightarrow> startTimeInv (nextState (dispatch c ts e)))"
proof
  show "reachable anyEvent ts \<longrightarrow>
      ((startTime ts \<noteq> None) = (status ts = RUNNING \<or> status ts = BREAK))"
  proof
    assume "reachable anyEvent ts"
    then have "startTimeInv ts" by (rule reachable_startTimeInv)
    then show "(startTime ts \<noteq> None) = (status ts = RUNNING \<or> status ts = BREAK)"
      by (simp add: startTimeInv_def)
  qed
  show "startTimeInv ts \<longrightarrow> startTimeInv (nextState (dispatch c ts e))"
    by (simp add: dispatch_startTimeInv)
qed

theorem startTime_iff_active_witness:
  "reachable anyEvent (toggleTimer 5 1500000 defaultTimerState 1700000000000)
   \<and> startTime (toggleTimer 5 1500000 defaultTimerState 1700000000000) \<noteq> None
   \<and> status (toggleTimer 5 1500000 defaultTimerState 1700000000000) = RUNNING
   \<and> startTimeInv (toggleTimer 5 1500000 defaultTimerState 1700000000000)
   \<and> startTimeInv (nextState (dispatch ''default-1''
        (toggleTimer 5 1500000 defaultTimerState 1700000000000) (Toggle 1700000005000 5 1500000)))"
proof -
  have r: "reachable anyEvent (toggleTimer 5 1500000 defaultTimerState 1700000000000)"
    by (rule reachable_started_flow) (simp_all add: anyEvent_def isInteger_def)
  have i: "startTimeInv (toggleTimer 5 1500000 defaultTimerState 1700000000000)"
    by (simp add: startTimeInv_def toggleTimer_def defaultTimerState_def)
  show ?thesis
    using r i startTime_iff_active [of "toggleTimer 5 1500000 defaultTimerState 1700000000000"
        "''default-1''" "Toggle 1700000005000 5 1500000"]
    by (simp add: toggleTimer_def defaultTimerState_def)
qed

text \<open>
  C5, as amended. The mode buttons overwrite \<open>mode\<close> and nothing else, at any time, so a
  switch to COUNTDOWN keeps whatever intervals the FLOW chain has stored. Provided the
  switch to COUNTDOWN is made only while intervals is empty (as it is in the default state
  and after every end-session or reset), every reachable state in COUNTDOWN mode has empty
  intervals: no operation adds an interval in COUNTDOWN mode.
\<close>

theorem countdown_intervals_empty:
  "reachable countdownSwitchWhenEmpty ts \<Longrightarrow> mode ts = COUNTDOWN \<longrightarrow> intervals ts = []"
  by (induction rule: reachable.induct)
     (simp_all add: defaultTimerState_def dispatch_countdown_intervals)

theorem countdown_intervals_empty_witness:
  "reachable countdownSwitchWhenEmpty
     (toggleTimer 5 1500000 (toggleTimer 5 1500000 (setMode defaultTimerState COUNTDOWN) 1700000000000)
        1700000005000)
   \<and> mode (toggleTimer 5 1500000 (toggleTimer 5 1500000 (setMode defaultTimerState COUNTDOWN)
        1700000000000) 1700000005000) = COUNTDOWN
   \<and> intervals (toggleTimer 5 1500000 (toggleTimer 5 1500000 (setMode defaultTimerState COUNTDOWN)
        1700000000000) 1700000005000) = []"
proof -
  have r: "reachable countdownSwitchWhenEmpty
     (toggleTimer 5 1500000 (toggleTimer 5 1500000 (setMode defaultTimerState COUNTDOWN) 1700000000000)
        1700000005000)"
    by (intro reachable_toggled reachable_switched reachable.initial)
       (simp_all add: isInteger_def defaultTimerState_def)
  show ?thesis
    using r countdown_intervals_empty [OF r]
    by (simp add: toggleTimer_def setMode_def defaultTimerState_def)
qed

text \<open>
  C5 as stated fails: started in FLOW mode, toggled into the break after 5000 ms, then the
  Countdown button: the mode is COUNTDOWN and intervals is [5000].
\<close>

theorem countdown_intervals_nonempty:
  "reachable anyEvent
     (setMode (toggleTimer 5 1500000 (toggleTimer 5 1500000 defaultTimerState 1700000000000)
        1700000005000) COUNTDOWN)
   \<and> mode (setMode (toggleTimer 5 1500000 (toggleTimer 5 1500000 defaultTimerState 1700000000000)
        1700000005000) COUNTDOWN) = COUNTDOWN
   \<and> intervals (setMode (toggleTimer 5 1500000 (toggleTimer 5 1500000 defaultTimerState 1700000000000)
        1700000005000) COUNTDOWN) = [5000]"
proof -
  have "reachable anyEvent
     (setMode (toggleTimer 5 1500000 (toggleTimer 5 1500000 defaultTimerState 1700000000000)
        1700000005000) COUNTDOWN)"
    by (intro reachable_toggled reachable_switched reachable.initial)
       (simp_all add: isInteger_def anyEvent_def)
  then show ?thesis
    by (simp add: toggleTimer_def setMode_def defaultTimerState_def orElse_def)
qed

text \<open>
  C9, as amended. With whole-millisecond timestamps, accumulatedTime and every element of
  intervals are whole in every reachable state. targetTime is whole as long as each Start
  found a minutes input for which the program's \<open>countdownMinutes * 60 * 1000\<close> is whole
  (whole minutes give one; 8.2 does not). The FLOW toggle stores
  breakRemaining = interval / flowDivisor unrounded: it is whole exactly when flowDivisor
  divides the interval.
\<close>

theorem stored_durations_whole:
  "(reachable anyEvent ts \<longrightarrow>
      isInteger (accumulatedTime ts) \<and> (\<forall>x\<in>set (intervals ts). isInteger x))
   \<and> (reachable wholeTarget ts \<longrightarrow> (\<forall>t. targetTime ts = Some t \<longrightarrow> isInteger t))
   \<and> (mode ts = FLOW \<and> status ts = RUNNING \<and> startTime ts = Some (rat_of_int s) \<and> s \<noteq> 0
        \<and> d \<noteq> 0 \<longrightarrow>
      breakRemaining (toggleTimer (rat_of_int d) cm ts (rat_of_int now))
        = Some (rat_of_int (now - s) / rat_of_int d)
      \<and> isInteger (rat_of_int (now - s) / rat_of_int d) = (d dvd (now - s)))"
proof (intro conjI impI)
  assume "reachable anyEvent ts"
  then have "wholeInv ts" by (rule reachable_wholeInv)
  then show "isInteger (accumulatedTime ts)" "\<forall>x\<in>set (intervals ts). isInteger x"
    by (simp_all add: wholeInv_def)
next
  assume "reachable wholeTarget ts"
  then show "\<forall>t. targetTime ts = Some t \<longrightarrow> isInteger t" by (rule reachable_wholeTarget)
next
  assume a: "mode ts = FLOW \<and> status ts = RUNNING \<and> startTime ts = Some (rat_of_int s)
      \<and> s \<noteq> 0 \<and> d \<noteq> 0"
  then show "breakRemaining (toggleTimer (rat_of_int d) cm ts (rat_of_int now))
        = Some (rat_of_int (now - s) / rat_of_int d)"
    by (simp add: toggleTimer_def orElse_def Let_def)
  from a show "isInteger (rat_of_int (now - s) / rat_of_int d) = (d dvd (now - s))"
    by (simp add: isInteger_quotient del: of_int_diff)
qed

theorem stored_durations_whole_witness:
  "reachable anyEvent (toggleTimer 5 1500000 (setMode defaultTimerState COUNTDOWN) 1700000000000)
   \<and> reachable wholeTarget (toggleTimer 5 1500000 (setMode defaultTimerState COUNTDOWN) 1700000000000)
   \<and> targetTime (toggleTimer 5 1500000 (setMode defaultTimerState COUNTDOWN) 1700000000000)
       = Some 1500000
   \<and> isInteger 1500000
   \<and> breakRemaining (toggleTimer 5 1500000
        \<lparr> mode = FLOW, status = RUNNING, startTime = Some 1700000000000,
          sessionStartTime = Some 1700000000000, accumulatedTime = 0, targetTime = None,
          breakRemaining = None, intervals = [], completedTasks = [] \<rparr> 1700000005000)
       = Some 1000
   \<and> isInteger (5000 / 5)"
proof -
  have r1: "reachable anyEvent (toggleTimer 5 1500000 (setMode defaultTimerState COUNTDOWN) 1700000000000)"
    by (intro reachable_toggled reachable_switched reachable.initial)
       (simp_all add: isInteger_def anyEvent_def)
  have r2: "reachable wholeTarget (toggleTimer 5 1500000 (setMode defaultTimerState COUNTDOWN) 1700000000000)"
    by (intro reachable_toggled reachable_switched reachable.initial)
       (simp_all add: isInteger_def)
  show ?thesis
    using r1 r2
      stored_durations_whole [of "toggleTimer 5 1500000 (setMode defaultTimerState COUNTDOWN) 1700000000000"]
      stored_durations_whole [of
        "\<lparr> mode = FLOW, status = RUNNING, startTime = Some 1700000000000,
          sessionStartTime = Some 1700000000000, accumulatedTime = 0, targetTime = None,
          breakRemaining = None, intervals = [], completedTasks = [] \<rparr>"
        1700000000000 5 1500000 1700000005000]
    by (simp add: toggleTimer_def setMode_def defaultTimerState_def orElse_def)
qed

text \<open>
  C9 as stated fails, twice. Started at a whole timestamp and toggled 5001 ms later with the
  default divisor 5, the stored breakRemaining is 5001/5 = 1000.2 ms. And with 8.2 in the
  minutes input the program computes 8.2 * 60 * 1000 = 491999.99999999994 in doubles, that
  is 492000 - 1/2^34 = 8452495638527999/17179869184, and Start in COUNTDOWN mode stores it as
  targetTime.
\<close>

theorem stored_durations_fraction:
  "reachable anyEvent
     (toggleTimer 5 1500000 (toggleTimer 5 1500000 defaultTimerState 1700000000000)
        1700000005001)
   \<and> breakRemaining
       (toggleTimer 5 1500000 (toggleTimer 5 1500000 defaultTimerState 1700000000000)
          1700000005001)
       = Some (5001 / 5)
   \<and> \<not> isInteger (5001 / 5)
   \<and> reachable anyEvent
       (toggleTimer 5 (8452495638527999 / 17179869184) (setMode defaultTimerState COUNTDOWN)
          1700000000000)
   \<and> targetTime
       (toggleTimer 5 (8452495638527999 / 17179869184) (setMode defaultTimerState COUNTDOWN)
          1700000000000)
       = Some (8452495638527999 / 17179869184)
   \<and> \<not> isInteger (8452495638527999 / 17179869184)"
proof (intro conjI)
  show "reachable anyEvent
     (toggleTimer 5 1500000 (toggleTimer 5 1500000 defaultTimerState 1700000000000)
        1700000005001)"
    by (intro reachable_toggled reachable.initial)
       (simp_all add: isInteger_def anyEvent_def)
  show "breakRemaining
       (toggleTimer 5 1500000 (toggleTimer 5 1500000 defaultTimerState 1700000000000)
          1700000005001)
       = Some (5001 / 5)"
    by (simp add: toggleTimer_def defaultTimerState_def orElse_def)
  show "\<not> isInteger (5001 / 5)"
    using isInteger_quotient [of 5 5001] by simp
  show "reachable anyEvent
       (toggleTimer 5 (8452495638527999 / 17179869184) (setMode defaultTimerState COUNTDOWN)
          1700000000000)"
    by (intro reachable_toggled reachable_switched reachable.initial)
       (simp_all add: isInteger_def anyEvent_def)
  show "targetTime
       (toggleTimer 5 (8452495638527999 / 17179869184) (setMode defaultTimerState COUNTDOWN)
          1700000000000)
       = Some (8452495638527999 / 17179869184)"
    by (simp add: toggleTimer_def setMode_def defaultTimerState_def orElse_def)
  show "\<not> isInteger (8452495638527999 / 17179869184)"
    using isInteger_quotient [of 17179869184 8452495638527999] by simp
qed

section \<open>Midnight splitter: the parts\<close>




end
